theory Spec2Isabelle
  imports Complex_Main "HOL-Library.AList"
begin

section \<open>Numbers and errors\<close>

text \<open>
  A TypeScript \<open>number\<close> is modelled as a \<^typ>\<open>real\<close>: the arithmetic of the
  source (\<open>+\<close>, \<open>*\<close>, \<open><\<close>, \<open>Math.min\<close>, \<open>Math.max\<close>) is read as exact arithmetic,
  so \<open>NaN\<close>, the infinities and rounding are outside the model. Where the rounding of
  an addition decides a property, as it does for the health regeneration, the
  operation is modelled a second time with the rounding of IEEE 754 doubles (see the
  health system). The tick counter of the server only ever starts at 0 and is
  incremented, so it is a \<^typ>\<open>nat\<close>.

  A property read on \<open>undefined\<close> throws a \<open>TypeError\<close> in the source; that is the
  only exception the modelled code can raise.
\<close>

datatype error = TypeError

section \<open>Entities and components (src/core/Entity.ts)\<close>

text \<open>
  Each component class fixes its own kind tag (\<open>readonly type = 'position'\<close>, ...) and
  every \<open>components.set\<close> of the repository stores a component under its own tag; the
  systems cast what they find under a tag to the class of that tag. The component map
  \<open>Map<string, Component>\<close> of an entity is therefore modelled with one optional slot
  per kind: \<open>None\<close> is the \<open>undefined\<close> that \<open>components.get\<close> returns for a missing
  key. Components are values owned by their entity, never shared between entities.
\<close>

datatype PositionComponent = PositionComponent real real real

datatype VelocityComponent = VelocityComponent real real real

datatype HealthComponent = HealthComponent real real

fun isAlive :: "HealthComponent \<Rightarrow> bool" where
  "isAlive (HealthComponent current maximum) = (current > 0)"

datatype SpriteComponent = SpriteComponent string real real real

datatype UnitComponent = UnitComponent string string bool

record Entity =
  entity_id :: string
  position :: "PositionComponent option"
  velocity :: "VelocityComponent option"
  health :: "HealthComponent option"
  sprite :: "SpriteComponent option"
  unit :: "UnitComponent option"

text \<open>\<open>entity.components.has(type)\<close>, for any string.\<close>

definition components_has :: "Entity \<Rightarrow> string \<Rightarrow> bool" where
  "components_has entity type =
     (if type = ''position'' then position entity \<noteq> None
      else if type = ''velocity'' then velocity entity \<noteq> None
      else if type = ''health'' then health entity \<noteq> None
      else if type = ''sprite'' then sprite entity \<noteq> None
      else if type = ''unit'' then unit entity \<noteq> None
      else False)"

subsection \<open>EntityManager\<close>

text \<open>
  The store is a \<open>Map<string, Entity>\<close>. A JavaScript \<open>Map\<close> iterates in insertion
  order and \<open>set\<close> on a present key replaces the value in place, so the store is an
  association list with distinct keys: \<^const>\<open>AList.update\<close> replaces in place or
  appends, \<^const>\<open>AList.delete\<close> removes.
\<close>

record EntityManager =
  entities :: "(string \<times> Entity) list"

definition addEntity :: "EntityManager \<Rightarrow> Entity \<Rightarrow> EntityManager" where
  "addEntity em entity = em\<lparr>entities := AList.update (entity_id entity) entity (entities em)\<rparr>"

definition removeEntity :: "EntityManager \<Rightarrow> string \<Rightarrow> EntityManager" where
  "removeEntity em entityId = em\<lparr>entities := AList.delete entityId (entities em)\<rparr>"

definition getEntity :: "EntityManager \<Rightarrow> string \<Rightarrow> Entity option" where
  "getEntity em entityId = map_of (entities em) entityId"

definition getEntitiesWithComponents :: "EntityManager \<Rightarrow> string list \<Rightarrow> Entity list" where
  "getEntitiesWithComponents em componentTypes =
     filter (\<lambda>entity. list_all (\<lambda>type. components_has entity type) componentTypes)
       (map snd (entities em))"

definition getAllEntities :: "EntityManager \<Rightarrow> Entity list" where
  "getAllEntities em = map snd (entities em)"

definition clear :: "EntityManager \<Rightarrow> EntityManager" where
  "clear em = em\<lparr>entities := []\<rparr>"

section \<open>Systems (src/core/Systems.ts)\<close>

text \<open>
  A system's \<open>update\<close> mutates the entities it is given, in list order, inside
  \<open>entities.forEach\<close>. The model passes the list through and returns it updated,
  together with the console lines written and the exception that ended the traversal,
  if any: an exception leaves the entity it was raised on and all later ones as they
  were, and keeps the changes already made to the earlier ones. The entities of the
  list are distinct objects, as \<open>getEntitiesWithComponents\<close> returns them.
\<close>

datatype SystemLog = HasDied string

fun forEach ::
  "('a \<Rightarrow> error + 'a \<times> SystemLog list) \<Rightarrow> 'a list \<Rightarrow> 'a list \<times> SystemLog list \<times> error option" where
  "forEach f [] = ([], [], None)"
| "forEach f (e # es) =
     (case f e of
        Inl err \<Rightarrow> (e # es, [], Some err)
      | Inr (e', out) \<Rightarrow>
          (case forEach f es of (es', outs, r) \<Rightarrow> (e' # es', out @ outs, r)))"

subsection \<open>MovementSystem\<close>

text \<open>
  The body of the \<open>forEach\<close> callback. Both \<open>position.x\<close> and \<open>velocity.x\<close> are read
  by the first statement before anything is assigned, so a missing component throws
  with the entity untouched.
\<close>

definition MovementSystem_requiredComponents :: "string list" where
  "MovementSystem_requiredComponents = [''position'', ''velocity'']"

definition MovementSystem_update_entity ::
  "real \<Rightarrow> Entity \<Rightarrow> error + Entity \<times> SystemLog list" where
  "MovementSystem_update_entity deltaTime entity =
     (case position entity of
        None \<Rightarrow> Inl TypeError
      | Some (PositionComponent x y z) \<Rightarrow>
          (case velocity entity of
             None \<Rightarrow> Inl TypeError
           | Some (VelocityComponent vx vy vz) \<Rightarrow>
               Inr (entity\<lparr>position := Some (PositionComponent
                      (x + vx * deltaTime) (y + vy * deltaTime) (z + vz * deltaTime))\<rparr>, [])))"

definition MovementSystem_update ::
  "Entity list \<Rightarrow> real \<Rightarrow> Entity list \<times> SystemLog list \<times> error option" where
  "MovementSystem_update entities' deltaTime =
     forEach (MovementSystem_update_entity deltaTime) entities'"

subsection \<open>HealthSystem\<close>

definition HealthSystem_requiredComponents :: "string list" where
  "HealthSystem_requiredComponents = [''health'']"

definition regenerationRate :: real where
  "regenerationRate = 1"

definition HealthSystem_update_entity ::
  "real \<Rightarrow> Entity \<Rightarrow> error + Entity \<times> SystemLog list" where
  "HealthSystem_update_entity deltaTime entity =
     (case health entity of
        None \<Rightarrow> Inl TypeError
      | Some (HealthComponent current maximum) \<Rightarrow>
          (let current' =
                 (if current < maximum
                  then min maximum (current + regenerationRate * deltaTime)
                  else current);
               health' = HealthComponent current' maximum
           in Inr (entity\<lparr>health := Some health'\<rparr>,
                   if \<not> isAlive health' then [HasDied (entity_id entity)] else [])))"



subsection \<open>HealthSystem with the rounding of doubles\<close>

text \<open>
  A JavaScript number is an IEEE 754 double: a sign, a significand of 53 bits and a
  power of two. The sum \<open>a + b\<close> of two doubles is the exact sum rounded to the
  nearest double, to the one with an even significand when two are equally near.
  \<open>binade x\<close> is the exponent \<open>e\<close> with \<open>2^e \<le> x < 2^(e+1)\<close> of a positive \<open>x\<close>, \<open>ulp x\<close>
  the distance \<open>2^(e - 52)\<close> between neighbouring doubles around \<open>x\<close>, and \<open>to_double\<close>
  rounds a real to the nearest multiple of it. The doubles are the reals that
  \<open>to_double\<close> leaves as they are. The exponent is not bounded in the model, so a sum
  never overflows to \<open>Infinity\<close>; \<open>NaN\<close> and the infinities are not doubles of the
  model. (A sum of two doubles that falls into the subnormal range is exact in IEEE 754
  and in the model alike.)
\<close>

fun bit_length :: "nat \<Rightarrow> nat" where
  "bit_length n = (if n = 0 then 0 else Suc (bit_length (n div 2)))"

definition binade :: "real \<Rightarrow> int" where
  "binade x =
     (if 1 \<le> x then int (bit_length (nat \<lfloor>x\<rfloor>)) - 1
      else - int (bit_length (nat (\<lceil>1 / x\<rceil> - 1))))"

definition ulp :: "real \<Rightarrow> real" where
  "ulp x = 2 powi (binade \<bar>x\<bar> - 52)"

definition round_half_even :: "real \<Rightarrow> int" where
  "round_half_even x =
     (let f = \<lfloor>x\<rfloor>; r = x - of_int f
      in if r < 1 / 2 then f else if 1 / 2 < r then f + 1 else if even f then f else f + 1)"

definition to_double :: "real \<Rightarrow> real" where
  "to_double x =
     (if x = 0 then 0 else sgn x * (of_int (round_half_even (\<bar>x\<bar> / ulp x)) * ulp x))"

definition is_double :: "real \<Rightarrow> bool" where
  "is_double x = (to_double x = x)"

definition double_add :: "real \<Rightarrow> real \<Rightarrow> real" where
  "double_add a b = to_double (a + b)"

definition double_mul :: "real \<Rightarrow> real \<Rightarrow> real" where
  "double_mul a b = to_double (a * b)"

text \<open>
  The callback of \<open>HealthSystem.update\<close> once more, with
  \<open>health.current + this.regenerationRate * deltaTime\<close> computed as the source
  computes it: the product rounded, then the sum rounded. The comparison and
  \<open>Math.min\<close> are exact on doubles.
\<close>

definition HealthSystem_update_entity_double ::
  "real \<Rightarrow> Entity \<Rightarrow> error + Entity \<times> SystemLog list" where
  "HealthSystem_update_entity_double deltaTime entity =
     (case health entity of
        None \<Rightarrow> Inl TypeError
      | Some (HealthComponent current maximum) \<Rightarrow>
          (let current' =
                 (if current < maximum
                  then min maximum (double_add current (double_mul regenerationRate deltaTime))
                  else current);
               health' = HealthComponent current' maximum
           in Inr (entity\<lparr>health := Some health'\<rparr>,
                   if \<not> isAlive health' then [HasDied (entity_id entity)] else [])))"

definition HealthSystem_update_double ::
  "Entity list \<Rightarrow> real \<Rightarrow> Entity list \<times> SystemLog list \<times> error option" where
  "HealthSystem_update_double entities' deltaTime =
     forEach (HealthSystem_update_entity_double deltaTime) entities'"

subsection \<open>CollisionSystem\<close>

text \<open>
  \<open>checkCollision\<close> is one \<open>&&\<close> chain, evaluated left to right and cut short at the
  first false conjunct: the first conjunct reads \<open>posA\<close>, \<open>posB\<close> and \<open>spriteB\<close>, the
  second is the first to read \<open>spriteA\<close>.
\<close>

definition CollisionSystem_requiredComponents :: "string list" where
  "CollisionSystem_requiredComponents = [''position'', ''sprite'']"

definition checkCollision :: "Entity \<Rightarrow> Entity \<Rightarrow> error + bool" where
  "checkCollision entityA entityB =
     (case position entityA of
        None \<Rightarrow> Inl TypeError
      | Some (PositionComponent ax ay az) \<Rightarrow>
     (case position entityB of
        None \<Rightarrow> Inl TypeError
      | Some (PositionComponent bx by bz) \<Rightarrow>
     (case sprite entityB of
        None \<Rightarrow> Inl TypeError
      | Some (SpriteComponent textureB widthB heightB rotationB) \<Rightarrow>
     if \<not> ax < bx + widthB then Inr False
     else
     (case sprite entityA of
        None \<Rightarrow> Inl TypeError
      | Some (SpriteComponent textureA widthA heightA rotationA) \<Rightarrow>
          Inr (ax + widthA > bx \<and> ay < by + heightB \<and> ay + heightA > by)))))"

section \<open>Renderer camera (src/client/Renderer.ts)\<close>

text \<open>
  Only the camera of the renderer is modelled; the canvas and its drawing context take
  no part in the camera mutators. The optional parameter \<open>zoom?\<close> of \<open>setCamera\<close> is
  an option, \<open>None\<close> for \<open>undefined\<close>.
\<close>

record Camera =
  camera_x :: real
  camera_y :: real
  zoom :: real

record Renderer =
  camera :: Camera
  initialized :: bool

definition new_Renderer :: Renderer where
  "new_Renderer = \<lparr>camera = \<lparr>camera_x = 0, camera_y = 0, zoom = 1.0\<rparr>, initialized = False\<rparr>"

definition moveCamera :: "Renderer \<Rightarrow> real \<Rightarrow> real \<Rightarrow> Renderer" where
  "moveCamera r deltaX deltaY =
     r\<lparr>camera := (camera r)\<lparr>camera_x := camera_x (camera r) + deltaX,
                               camera_y := camera_y (camera r) + deltaY\<rparr>\<rparr>"

definition setZoom :: "Renderer \<Rightarrow> real \<Rightarrow> Renderer" where
  "setZoom r z = r\<lparr>camera := (camera r)\<lparr>zoom := max 0.1 (min 3.0 z)\<rparr>\<rparr>"

definition getCamera :: "Renderer \<Rightarrow> Camera" where
  "getCamera r = camera r"

definition setCamera :: "Renderer \<Rightarrow> real \<Rightarrow> real \<Rightarrow> real option \<Rightarrow> Renderer" where
  "setCamera r x y zoom' =
     (let c = (camera r)\<lparr>camera_x := x, camera_y := y\<rparr>
      in r\<lparr>camera := (case zoom' of None \<Rightarrow> c | Some z \<Rightarrow> c\<lparr>zoom := z\<rparr>)\<rparr>)"

section \<open>Game server (src/server/index.ts)\<close>

subsection \<open>Values received from a socket\<close>

text \<open>
  A command arrives as \<open>command: any\<close>. \<^const>\<open>Inl\<close> \<^const>\<open>TypeError\<close> is the
  exception of a property read on \<open>undefined\<close> or \<open>null\<close>; a read of a key an object
  does not have, or of any key on a number, string, boolean or array, gives
  \<open>undefined\<close> (the server reads only the keys \<open>type\<close>, \<open>data\<close>, \<open>targetX\<close>,
  \<open>targetY\<close>, \<open>targetId\<close>, \<open>buildingType\<close>, \<open>x\<close> and \<open>y\<close>, none of which a primitive
  or an array has). The keys of an object are distinct.
\<close>

datatype Any =
    JsUndefined
  | JsNull
  | JsNumber real
  | JsString string
  | JsBoolean bool
  | JsArray "Any list"
  | JsObject "(string \<times> Any) list"

fun get_prop :: "Any \<Rightarrow> string \<Rightarrow> error + Any" where
  "get_prop JsUndefined key = Inl TypeError"
| "get_prop JsNull key = Inl TypeError"
| "get_prop (JsObject props) key =
     Inr (case map_of props key of None \<Rightarrow> JsUndefined | Some v \<Rightarrow> v)"
| "get_prop v key = Inr JsUndefined"

text \<open>
  A value spliced into a template literal is converted to a string. For the values a
  socket delivers the conversion fails, with a \<open>TypeError\<close>, on an object that has a
  key \<open>toString\<close> (its value cannot be a function, and it hides the method of
  \<open>Object.prototype\<close>), and on an array that holds such a value, since an array is
  converted by joining the conversions of its elements.
\<close>

fun printable :: "Any \<Rightarrow> bool" and printable_all :: "Any list \<Rightarrow> bool" where
  "printable (JsObject props) = (map_of props ''toString'' = None)"
| "printable (JsArray vs) = printable_all vs"
| "printable JsUndefined = True"
| "printable JsNull = True"
| "printable (JsNumber n) = True"
| "printable (JsString s) = True"
| "printable (JsBoolean b) = True"
| "printable_all [] = True"
| "printable_all (v # vs) = (printable v \<and> printable_all vs)"

text \<open>\<open>${command.data.<key>}\<close>: the read, then the conversion.\<close>

definition data_prop :: "Any \<Rightarrow> string \<Rightarrow> error + Any" where
  "data_prop command key =
     (case get_prop command ''data'' of
        Inl err \<Rightarrow> Inl err
      | Inr d \<Rightarrow>
          (case get_prop d key of
             Inl err \<Rightarrow> Inl err
           | Inr v \<Rightarrow> if printable v then Inr v else Inl TypeError))"

subsection \<open>State\<close>

record Resources =
  credits :: real
  power :: real
  powerCapacity :: real

record Player =
  player_id :: string
  name :: string
  faction :: string
  resources :: Resources
  isActive :: bool
  color :: string

record GameState =
  tick :: nat
  state_entities :: "(string \<times> Entity) list"
  state_players :: "(string \<times> Player) list"
  status :: string

record GameServer =
  players :: "(string \<times> Player) list"
  gameState :: GameState

definition new_GameServer :: GameServer where
  "new_GameServer =
     \<lparr>players = [],
      gameState = \<lparr>tick = 0, state_entities = [], state_players = [], status = ''waiting''\<rparr>\<rparr>"

subsection \<open>What the server writes\<close>

text \<open>
  Console lines keep the values spliced into them instead of their rendering as text.
  \<open>IoEmit_gameState\<close> is \<open>io.emit('gameState', this.gameState)\<close>: the state, as it is
  at that moment, sent to every connected client.
\<close>

datatype ServerLog =
    CommandFrom string Any
  | MovingUnitsTo string Any Any
  | Attacking string Any
  | Building string Any Any Any
  | SelectingAt string Any Any
  | UnknownCommandType Any

datatype Output = ConsoleLog ServerLog | IoEmit_gameState GameState

fun snapshots :: "Output list \<Rightarrow> GameState list" where
  "snapshots [] = []"
| "snapshots (IoEmit_gameState g # out) = g # snapshots out"
| "snapshots (ConsoleLog l # out) = snapshots out"

fun console :: "Output list \<Rightarrow> ServerLog list" where
  "console [] = []"
| "console (ConsoleLog l # out) = l # console out"
| "console (IoEmit_gameState g # out) = console out"

subsection \<open>Command handlers\<close>

definition handleMoveCommand :: "Player \<Rightarrow> Any \<Rightarrow> error + Output list" where
  "handleMoveCommand player command =
     (case data_prop command ''targetX'' of Inl err \<Rightarrow> Inl err | Inr targetX \<Rightarrow>
     (case data_prop command ''targetY'' of Inl err \<Rightarrow> Inl err | Inr targetY \<Rightarrow>
        Inr [ConsoleLog (MovingUnitsTo (name player) targetX targetY)]))"

definition handleAttackCommand :: "Player \<Rightarrow> Any \<Rightarrow> error + Output list" where
  "handleAttackCommand player command =
     (case data_prop command ''targetId'' of Inl err \<Rightarrow> Inl err | Inr targetId \<Rightarrow>
        Inr [ConsoleLog (Attacking (name player) targetId)])"

definition handleBuildCommand :: "Player \<Rightarrow> Any \<Rightarrow> error + Output list" where
  "handleBuildCommand player command =
     (case data_prop command ''buildingType'' of Inl err \<Rightarrow> Inl err | Inr buildingType \<Rightarrow>
     (case data_prop command ''x'' of Inl err \<Rightarrow> Inl err | Inr x \<Rightarrow>
     (case data_prop command ''y'' of Inl err \<Rightarrow> Inl err | Inr y \<Rightarrow>
        Inr [ConsoleLog (Building (name player) buildingType x y)])))"

definition handleSelectCommand :: "Player \<Rightarrow> Any \<Rightarrow> error + Output list" where
  "handleSelectCommand player command =
     (case data_prop command ''x'' of Inl err \<Rightarrow> Inl err | Inr x \<Rightarrow>
     (case data_prop command ''y'' of Inl err \<Rightarrow> Inl err | Inr y \<Rightarrow>
        Inr [ConsoleLog (SelectingAt (name player) x y)]))"

definition broadcastGameState :: "GameServer \<Rightarrow> GameServer \<times> Output list" where
  "broadcastGameState s =
     (let g = (gameState s)\<lparr>tick := tick (gameState s) + 1\<rparr>
      in (s\<lparr>gameState := g\<rparr>, [IoEmit_gameState g]))"

text \<open>
  The \<open>switch\<close> on \<open>command.type\<close>, by strict equality with the four string
  literals; the default branch splices \<open>command.type\<close> into its console line.
\<close>

definition dispatch :: "Player \<Rightarrow> Any \<Rightarrow> Any \<Rightarrow> error + Output list" where
  "dispatch player command type =
     (if type = JsString ''move'' then handleMoveCommand player command
      else if type = JsString ''attack'' then handleAttackCommand player command
      else if type = JsString ''build'' then handleBuildCommand player command
      else if type = JsString ''select'' then handleSelectCommand player command
      else if printable type then Inr [ConsoleLog (UnknownCommandType type)]
      else Inl TypeError)"

text \<open>
  \<open>handleGameCommand(socket, command)\<close>, with \<open>socket.id\<close> for the socket. The result
  is the server afterwards, what was written, and the exception thrown, if any; an
  exception leaves the server as it was, since only the closing broadcast changes it.
\<close>

definition handleGameCommand ::
  "GameServer \<Rightarrow> string \<Rightarrow> Any \<Rightarrow> GameServer \<times> Output list \<times> error option" where
  "handleGameCommand s socket_id command =
     (case map_of (players s) socket_id of
        None \<Rightarrow> (s, [], None)
      | Some player \<Rightarrow>
          (let logged = [ConsoleLog (CommandFrom (name player) command)] in
           case get_prop command ''type'' of
             Inl err \<Rightarrow> (s, logged, Some err)
           | Inr type \<Rightarrow>
               (case dispatch player command type of
                  Inl err \<Rightarrow> (s, logged, Some err)
                | Inr handled \<Rightarrow>
                    (case broadcastGameState s of
                       (s', sent) \<Rightarrow> (s', logged @ handled @ sent, None)))))"

subsection \<open>The simulation loop\<close>

definition updateGame :: "GameServer \<Rightarrow> GameServer \<times> Output list" where
  "updateGame s =
     (let s1 = s\<lparr>gameState := (gameState s)\<lparr>tick := tick (gameState s) + 1\<rparr>\<rparr>
      in if tick (gameState s1) mod 30 = 0 then broadcastGameState s1 else (s1, []))"

text \<open>
  \<open>startGameLoop\<close> hands \<open>updateGame\<close> to \<open>setInterval\<close>; \<open>startGameLoop n\<close> is the
  effect of the first \<open>n\<close> firings of that timer.
\<close>

fun startGameLoop :: "nat \<Rightarrow> GameServer \<Rightarrow> GameServer \<times> Output list" where
  "startGameLoop 0 s = (s, [])"
| "startGameLoop (Suc n) s =
     (case updateGame s of
        (s', out) \<Rightarrow> (case startGameLoop n s' of (s'', outs) \<Rightarrow> (s'', out @ outs)))"

section \<open>Concrete entities, commands and server states\<close>

text \<open>
  The entities of the repository's own tests (tests/core/Entity.test.ts): the moving
  entity of \<open>beforeEach\<close> and the entity without a velocity of the last test.
\<close>

definition movingEntity :: Entity where
  "movingEntity =
     \<lparr>entity_id = ''entity_1'', position = Some (PositionComponent 0 0 0),
      velocity = Some (VelocityComponent 10 5 0), health = None, sprite = None, unit = None\<rparr>"

definition entityWithoutVelocity :: Entity where
  "entityWithoutVelocity =
     \<lparr>entity_id = ''entity_1'', position = Some (PositionComponent 50 50 0), velocity = None,
      health = None, sprite = None, unit = None\<rparr>"

text \<open>Entities that carry only a health component: \<open>new HealthComponent(current, 100)\<close>.\<close>

definition healthEntity :: "real \<Rightarrow> Entity" where
  "healthEntity current =
     \<lparr>entity_id = ''entity_1'', position = None, velocity = None,
      health = Some (HealthComponent current 100), sprite = None, unit = None\<rparr>"

text \<open>An entity with very large health values: \<open>new HealthComponent(1e17, 1e18)\<close>.\<close>

definition hugeHealthEntity :: Entity where
  "hugeHealthEntity =
     \<lparr>entity_id = ''entity_1'', position = None, velocity = None,
      health = Some (HealthComponent 100000000000000000 1000000000000000000),
      sprite = None, unit = None\<rparr>"

text \<open>A 32 by 32 sprite with its top-left corner at \<open>(x, y)\<close>.\<close>

definition spriteAt :: "string \<Rightarrow> real \<Rightarrow> real \<Rightarrow> Entity" where
  "spriteAt i x y =
     \<lparr>entity_id = i, position = Some (PositionComponent x y 0), velocity = None,
      health = None, sprite = Some (SpriteComponent ''infantry_texture'' 32 32 0), unit = None\<rparr>"

text \<open>
  A server one player has joined (the record \<open>handlePlayerJoin\<close> builds, with its
  defaults), and two commands as the client sends them: \<open>sendMoveCommand\<close> of
  NetworkManager.ts and \<open>togglePause\<close> of GameClient.ts.
\<close>

definition joinedPlayer :: Player where
  "joinedPlayer =
     \<lparr>player_id = ''sock1'', name = ''Player_sock1'', faction = ''GLA'',
      resources = \<lparr>credits = 1000, power = 0, powerCapacity = 100\<rparr>,
      isActive = True, color = ''#ff0000''\<rparr>"

definition server_with_player :: GameServer where
  "server_with_player =
     \<lparr>players = [(''sock1'', joinedPlayer)],
      gameState = \<lparr>tick = 0, state_entities = [], state_players = [(''sock1'', joinedPlayer)],
                   status = ''waiting''\<rparr>\<rparr>"

definition moveCommand :: Any where
  "moveCommand =
     JsObject [(''type'', JsString ''move''), (''playerId'', JsString ''sock1''),
               (''timestamp'', JsNumber 0),
               (''data'', JsObject [(''entityIds'', JsArray []), (''targetX'', JsNumber 10),
                                    (''targetY'', JsNumber 20)])]"

definition togglePauseCommand :: Any where
  "togglePauseCommand =
     JsObject [(''type'', JsString ''togglePause''), (''playerId'', JsString ''sock1''),
               (''timestamp'', JsNumber 0), (''data'', JsObject [])]"

section \<open>Properties stated by the specification\<close>

text \<open>
  \<open>within_maximum\<close> is the invariant of the health system: the entity has a health
  component and its current value does not exceed its maximum.
\<close>

definition within_maximum :: "Entity \<Rightarrow> bool" where
  "within_maximum entity =
     (case health entity of
        None \<Rightarrow> False
      | Some (HealthComponent current maximum) \<Rightarrow> current \<le> maximum)"

text \<open>An entity has every kind a system requires: the test of the store's query.\<close>

definition has_all :: "string list \<Rightarrow> Entity \<Rightarrow> bool" where
  "has_all componentTypes entity = list_all (\<lambda>type. components_has entity type) componentTypes"

section \<open>Entity store queries\<close>

text \<open>
  C10. A query with the empty list of required kinds matches every entity: whatever
  the store holds, \<open>getEntitiesWithComponents([])\<close> returns the entities that
  \<open>getAllEntities\<close> returns, in the same order.
\<close>

theorem getEntitiesWithComponents_empty:
  "getEntitiesWithComponents em [] = getAllEntities em"
  by (simp add: getEntitiesWithComponents_def getAllEntities_def)

theorem getEntitiesWithComponents_empty_witness:
  "getEntitiesWithComponents \<lparr>entities = [(''entity_1'', movingEntity), (''entity_2'', healthEntity 99)]\<rparr> [] =
     [movingEntity, healthEntity 99]"
  using getEntitiesWithComponents_empty
    [of "\<lparr>entities = [(''entity_1'', movingEntity), (''entity_2'', healthEntity 99)]\<rparr>"]
  by (simp add: getAllEntities_def)

section \<open>Traversals that do not throw\<close>

lemma forEach_no_throw:
  assumes "\<And>e. e \<in> set es \<Longrightarrow> \<exists>r. f e = Inr r"
  shows "forEach f es = (map (\<lambda>e. fst (projr (f e))) es, concat (map (\<lambda>e. snd (projr (f e))) es), None)"
  using assms
proof (induction es)
  case Nil
  show ?case by simp
next
  case (Cons e es)
  from Cons.prems [of e] obtain r where r: "f e = Inr r" by auto
  from Cons.prems have "\<And>x. x \<in> set es \<Longrightarrow> \<exists>r. f x = Inr r" by simp
  from Cons.IH [OF this] r show ?case by (cases r) simp
qed

section \<open>MovementSystem\<close>

lemma MovementSystem_update_entity_ok:
  assumes "position e = Some (PositionComponent x y z)"
    and "velocity e = Some (VelocityComponent vx vy vz)"
  shows "MovementSystem_update_entity dt e =
           Inr (e\<lparr>position := Some (PositionComponent (x + vx * dt) (y + vy * dt) (z + vz * dt))\<rparr>, [])"
  by (simp add: MovementSystem_update_entity_def assms)

lemma has_all_MovementSystem:
  "has_all MovementSystem_requiredComponents e \<longleftrightarrow> position e \<noteq> None \<and> velocity e \<noteq> None"
  by (simp add: has_all_def MovementSystem_requiredComponents_def components_has_def)

lemma getEntitiesWithComponents_has_all:
  "list_all (has_all componentTypes) (getEntitiesWithComponents em componentTypes)"
  by (simp add: getEntitiesWithComponents_def has_all_def list_all_iff)

lemma MovementSystem_update_entity_required:
  assumes "has_all MovementSystem_requiredComponents e"
  shows "\<exists>r. MovementSystem_update_entity dt e = Inr (r, [])"
proof -
  from assms obtain p v where "position e = Some p" "velocity e = Some v"
    by (auto simp: has_all_MovementSystem)
  then show ?thesis
    by (cases p; cases v) (simp add: MovementSystem_update_entity_ok)
qed

text \<open>
  C3. When the movement system is given entities that all have a position and a
  velocity (its required components), one update with elapsed time \<open>dt\<close> completes
  without an exception and writes nothing to the console, and every entity of the list
  comes out with position \<open>(x + vx * dt, y + vy * dt, z + vz * dt)\<close>, each coordinate on
  its own and unclamped, and is otherwise the entity that went in: its id and its
  velocity, health, sprite and unit components are untouched.
\<close>

theorem MovementSystem_update_adds_velocity:
  assumes "list_all (has_all MovementSystem_requiredComponents) es"
  shows "\<exists>es'. MovementSystem_update es dt = (es', [], None) \<and> length es' = length es \<and>
           (\<forall>i x y z vx vy vz.
              i < length es \<and> position (es ! i) = Some (PositionComponent x y z) \<and>
              velocity (es ! i) = Some (VelocityComponent vx vy vz) \<longrightarrow>
              es' ! i = (es ! i)\<lparr>position :=
                 Some (PositionComponent (x + vx * dt) (y + vy * dt) (z + vz * dt))\<rparr>)"
proof -
  let ?f = "MovementSystem_update_entity dt"
  have ok: "\<exists>r. ?f e = Inr (r, [])" if "e \<in> set es" for e
    using that assms MovementSystem_update_entity_required by (auto simp: list_all_iff)
  then have "\<exists>r. ?f e = Inr r" if "e \<in> set es" for e
    using that by blast
  from forEach_no_throw [of es ?f, OF this]
  have "MovementSystem_update es dt =
      (map (\<lambda>e. fst (projr (?f e))) es, concat (map (\<lambda>e. snd (projr (?f e))) es), None)"
    by (simp add: MovementSystem_update_def)
  moreover have "snd (projr (?f e)) = []" if "e \<in> set es" for e
    using ok [OF that] by auto
  then have "concat (map (\<lambda>e. snd (projr (?f e))) es) = []"
    by simp
  ultimately have run: "MovementSystem_update es dt = (map (\<lambda>e. fst (projr (?f e))) es, [], None)"
    by simp
  have "map (\<lambda>e. fst (projr (?f e))) es ! i = (es ! i)\<lparr>position :=
          Some (PositionComponent (x + vx * dt) (y + vy * dt) (z + vz * dt))\<rparr>"
    if "i < length es" "position (es ! i) = Some (PositionComponent x y z)"
       "velocity (es ! i) = Some (VelocityComponent vx vy vz)" for i x y z vx vy vz
    using that by (simp add: MovementSystem_update_entity_ok)
  with run show ?thesis by auto
qed

theorem MovementSystem_update_adds_velocity_witness:
  "list_all (has_all MovementSystem_requiredComponents) [movingEntity] \<and>
   MovementSystem_update [movingEntity] 1 =
     ([movingEntity\<lparr>position := Some (PositionComponent 10 5 0)\<rparr>], [], None)"
proof -
  have h: "list_all (has_all MovementSystem_requiredComponents) [movingEntity]"
    by (simp add: has_all_MovementSystem movingEntity_def)
  from MovementSystem_update_adds_velocity [OF h, of 1]
  obtain es' where r: "MovementSystem_update [movingEntity] 1 = (es', [], None)"
    and l: "length es' = length [movingEntity]"
    and a: "\<forall>i x y z vx vy vz.
              i < length [movingEntity] \<and>
              position ([movingEntity] ! i) = Some (PositionComponent x y z) \<and>
              velocity ([movingEntity] ! i) = Some (VelocityComponent vx vy vz) \<longrightarrow>
              es' ! i = ([movingEntity] ! i)\<lparr>position :=
                 Some (PositionComponent (x + vx * 1) (y + vy * 1) (z + vz * 1))\<rparr>"
    by blast
  from a [rule_format, of 0 0 0 0 10 5 0]
  have "es' ! 0 = movingEntity\<lparr>position := Some (PositionComponent 10 5 0)\<rparr>"
    by (simp add: movingEntity_def)
  moreover from l obtain e where "es' = [e]"
    by (cases es') auto
  ultimately show ?thesis using r h by simp
qed

lemma MovementSystem_update_missing_velocity:
  assumes "position e \<noteq> None" and "velocity e = None"
  shows "MovementSystem_update [e] dt = ([e], [], Some TypeError)"
  using assms
  by (auto simp: MovementSystem_update_def MovementSystem_update_entity_def
      split: PositionComponent.splits)

text \<open>
  C7. The last test of tests/core/Entity.test.ts, \<open>should not affect entities without
  required components\<close>, run on the model: \<open>update([entityWithoutVelocity], 1.0)\<close> for
  the entity with position \<open>(50, 50)\<close> and no velocity. The position is still
  \<open>(50, 50, 0)\<close> afterwards, but the update does not complete: reading \<open>velocity.x\<close>
  on the missing component throws a \<open>TypeError\<close>.
\<close>

theorem MovementSystem_update_without_velocity_throws:
  "MovementSystem_update [entityWithoutVelocity] 1 =
     ([entityWithoutVelocity], [], Some TypeError) \<and>
   position entityWithoutVelocity = Some (PositionComponent 50 50 0) \<and>
   velocity entityWithoutVelocity = None"
  by (simp add: MovementSystem_update_def MovementSystem_update_entity_def
      entityWithoutVelocity_def)

section \<open>HealthSystem\<close>









section \<open>Rounding to double precision\<close>

lemma round_half_even_bounds: "\<lfloor>x\<rfloor> \<le> round_half_even x \<and> round_half_even x \<le> \<lfloor>x\<rfloor> + 1"
  by (simp add: round_half_even_def Let_def)

lemma round_half_even_of_int [simp]: "round_half_even (of_int n) = n"
  by (simp add: round_half_even_def)

lemma round_half_even_numeral [simp]: "round_half_even (numeral n) = numeral n"
  using round_half_even_of_int [of "numeral n"] by simp

lemma round_half_even_mono:
  assumes "x \<le> y"
  shows "round_half_even x \<le> round_half_even y"
proof (cases "\<lfloor>x\<rfloor> = \<lfloor>y\<rfloor>")
  case True
  with assms show ?thesis
    by (auto simp: round_half_even_def Let_def)
next
  case False
  with assms have "\<lfloor>x\<rfloor> < \<lfloor>y\<rfloor>"
    by (simp add: floor_mono order.strict_iff_order)
  then have "round_half_even x \<le> \<lfloor>y\<rfloor>"
    using round_half_even_bounds [of x] by linarith
  then show ?thesis
    using round_half_even_bounds [of y] by linarith
qed

declare bit_length.simps [simp del]

lemma bit_length_bounds:
  "0 < n \<Longrightarrow> 2 ^ (bit_length n - 1) \<le> n \<and> n < 2 ^ bit_length n"
proof (induction n rule: bit_length.induct)
  case (1 n)
  show ?case
  proof (cases "n div 2 = 0")
    case True
    with "1.prems" have "n = 1" by linarith
    then show ?thesis
      by (simp add: bit_length.simps [of "Suc 0"] bit_length.simps [of 0])
  next
    case False
    with "1.IH" "1.prems"
    have ih: "2 ^ (bit_length (n div 2) - 1) \<le> n div 2" "n div 2 < 2 ^ bit_length (n div 2)"
      by simp_all
    have pos: "0 < bit_length (n div 2)"
      using False by (simp add: bit_length.simps [of "n div 2"])
    have b: "bit_length n = Suc (bit_length (n div 2))"
      using "1.prems" by (simp add: bit_length.simps [of n])
    from pos have "(2::nat) ^ bit_length (n div 2) = 2 * 2 ^ (bit_length (n div 2) - 1)"
      by (cases "bit_length (n div 2)") simp_all
    with ih show ?thesis
      unfolding b by simp linarith
  qed
qed

lemma bit_length_pos: "0 < n \<Longrightarrow> 0 < bit_length n"
  by (simp add: bit_length.simps [of n])

lemma bit_length_real_bounds:
  assumes "0 < n"
  shows "(2::real) ^ (bit_length n - 1) \<le> real n \<and> real n + 1 \<le> 2 ^ bit_length n"
proof -
  from bit_length_bounds [OF assms]
  have "2 ^ (bit_length n - 1) \<le> n" and "Suc n \<le> 2 ^ bit_length n"
    by auto
  then have "real (2 ^ (bit_length n - 1)) \<le> real n" and "real (Suc n) \<le> real (2 ^ bit_length n)"
    by (simp_all only: of_nat_le_iff)
  then show ?thesis by simp
qed

lemma binade_bounds:
  assumes "0 < x"
  shows "2 powi binade x \<le> x \<and> x < 2 powi (binade x + 1)"
proof (cases "1 \<le> x")
  case True
  define n where "n = nat \<lfloor>x\<rfloor>"
  from True have n: "0 < n" by (simp add: n_def)
  from True have fl: "real n \<le> x" "x < real n + 1"
    by (simp_all add: n_def)
  with bit_length_real_bounds [OF n]
  have "(2::real) ^ (bit_length n - 1) \<le> x" "x < 2 ^ bit_length n"
    by linarith+
  moreover have "binade x = int (bit_length n - 1)" "binade x + 1 = int (bit_length n)"
    using True bit_length_pos [OF n] by (simp_all add: binade_def n_def)
  ultimately show ?thesis
    by (simp only: power_int_of_nat)
next
  case False
  define j where "j = \<lceil>1 / x\<rceil>"
  define m where "m = nat (j - 1)"
  define k where "k = bit_length m"
  from False assms have "1 < 1 / x" by simp
  then have c: "2 \<le> j" unfolding j_def by linarith
  then have m: "0 < m" by (simp add: m_def)
  from c have rm: "real m = real_of_int j - 1"
    by (simp add: m_def)
  have "real_of_int j - 1 < 1 / x" "1 / x \<le> real_of_int j"
    unfolding j_def by linarith+
  then have fl: "real m < 1 / x" "1 / x \<le> real m + 1"
    unfolding rm by linarith+
  with bit_length_real_bounds [OF m]
  have "(2::real) ^ (k - 1) < 1 / x" "1 / x \<le> 2 ^ k"
    unfolding k_def by linarith+
  with assms have lo: "1 / 2 ^ k \<le> x" and hi: "x < 1 / 2 ^ (k - 1)"
    by (simp_all add: field_simps)
  have k: "0 < k" unfolding k_def by (rule bit_length_pos [OF m])
  have e: "binade x = - int k" using False by (simp add: binade_def m_def k_def j_def)
  have e1: "binade x + 1 = - int (k - 1)" using k e by simp
  show ?thesis
    unfolding e1 unfolding e using lo hi
    by (simp only: power_int_minus power_int_of_nat) (simp add: field_simps)
qed

lemma binade_floor_log:
  assumes "0 < x"
  shows "binade x = \<lfloor>log 2 x\<rfloor>"
proof -
  have "(2::real) powr of_int (binade x) = 2 powi binade x"
    by (simp add: powr_real_of_int')
  moreover have "(2::real) powr (of_int (binade x) + 1) = 2 powi (binade x + 1)"
    using powr_real_of_int' [of 2 "binade x + 1"] by simp
  ultimately have "2 powr of_int (binade x) \<le> x \<and> x < 2 powr (of_int (binade x) + 1)"
    using binade_bounds [OF assms] by simp
  then show ?thesis
    using floor_log_eq_powr_iff [of x 2 "binade x"] assms by simp
qed

lemma ulp_log: "x \<noteq> 0 \<Longrightarrow> ulp x = 2 powr (of_int \<lfloor>log 2 \<bar>x\<bar>\<rfloor> - 52)"
  using powr_real_of_int' [of 2 "binade \<bar>x\<bar> - 52"]
  by (simp add: ulp_def binade_floor_log)

lemma floor_log_bounds:
  assumes "0 < x"
  shows "2 powr of_int \<lfloor>log 2 x\<rfloor> \<le> x \<and> x < 2 powr (of_int \<lfloor>log 2 x\<rfloor> + 1)"
  using floor_log_eq_powr_iff [of x 2 "\<lfloor>log 2 x\<rfloor>"] assms by simp

lemma ulp_pos: "0 < ulp x"
  by (simp add: ulp_def)

lemma scaled_range:
  assumes "0 < x"
  shows "2 ^ 52 \<le> x / ulp x \<and> x / ulp x < 2 ^ 53"
proof -
  let ?e = "of_int \<lfloor>log 2 x\<rfloor> :: real"
  have u: "ulp x = 2 powr ?e / 2 ^ 52"
    using assms by (simp add: ulp_log powr_diff)
  from floor_log_bounds [OF assms] have "2 powr ?e \<le> x" "x < 2 powr ?e * 2"
    by (simp_all add: powr_add)
  moreover have "0 < 2 powr ?e" by simp
  ultimately show ?thesis
    unfolding u by (simp add: field_simps)
qed

lemma rounded_range:
  assumes "0 < x"
  shows "2 ^ 52 \<le> round_half_even (x / ulp x) \<and> round_half_even (x / ulp x) \<le> 2 ^ 53"
proof -
  from scaled_range [OF assms]
  have a: "of_int (2 ^ 52) \<le> x / ulp x" and b: "x / ulp x \<le> of_int (2 ^ 53)"
    by simp_all
  from round_half_even_mono [OF a] have "2 ^ 52 \<le> round_half_even (x / ulp x)"
    by (simp only: round_half_even_of_int)
  moreover from round_half_even_mono [OF b] have "round_half_even (x / ulp x) \<le> 2 ^ 53"
    by (simp only: round_half_even_of_int)
  ultimately show ?thesis ..
qed

lemma to_double_pos_range:
  assumes "0 < x"
  shows "2 powr of_int \<lfloor>log 2 x\<rfloor> \<le> to_double x \<and>
         to_double x \<le> 2 powr (of_int \<lfloor>log 2 x\<rfloor> + 1)"
proof -
  let ?e = "of_int \<lfloor>log 2 x\<rfloor> :: real"
  let ?n = "round_half_even (x / ulp x)"
  have u: "ulp x = 2 powr ?e / 2 ^ 52"
    using assms by (simp add: ulp_log powr_diff)
  have t: "to_double x = of_int ?n * ulp x"
    using assms by (simp add: to_double_def)
  from rounded_range [OF assms] have "(2 ^ 52 :: real) \<le> of_int ?n" "of_int ?n \<le> (2 ^ 53 :: real)"
    by (metis of_int_le_iff of_int_numeral of_int_power)+
  moreover have "0 < 2 powr ?e" by simp
  ultimately show ?thesis
    unfolding t u by (simp add: field_simps powr_add)
qed

lemma to_double_pos: "0 < x \<Longrightarrow> 0 < to_double x"
  using to_double_pos_range [of x] by (smt (verit) powr_gt_zero)

lemma to_double_zero [simp]: "to_double 0 = 0"
  by (simp add: to_double_def)

lemma to_double_minus: "to_double (- x) = - to_double x"
  by (simp add: to_double_def ulp_def sgn_minus)

lemma to_double_mono_pos:
  assumes "0 < x" and "x \<le> y"
  shows "to_double x \<le> to_double y"
proof (cases "\<lfloor>log 2 x\<rfloor> = \<lfloor>log 2 y\<rfloor>")
  case True
  from assms have y: "0 < y" by simp
  from True have u: "ulp y = ulp x"
    using assms y by (simp add: ulp_log)
  from assms have "x / ulp x \<le> y / ulp x"
    using ulp_pos [of x] by (simp add: divide_right_mono)
  from round_half_even_mono [OF this]
  have "of_int (round_half_even (x / ulp x)) * ulp x \<le> of_int (round_half_even (y / ulp x)) * ulp x"
    using ulp_pos [of x] by simp
  then show ?thesis
    using assms y by (simp add: to_double_def u)
next
  case False
  from assms have y: "0 < y" by simp
  from assms have "log 2 x \<le> log 2 y" by simp
  then have "\<lfloor>log 2 x\<rfloor> \<le> \<lfloor>log 2 y\<rfloor>" by (rule floor_mono)
  with False have "\<lfloor>log 2 x\<rfloor> + 1 \<le> \<lfloor>log 2 y\<rfloor>" by simp
  then have "(of_int \<lfloor>log 2 x\<rfloor> :: real) + 1 \<le> of_int \<lfloor>log 2 y\<rfloor>"
    by (metis of_int_1 of_int_add of_int_le_iff)
  then have "(2::real) powr (of_int \<lfloor>log 2 x\<rfloor> + 1) \<le> 2 powr of_int \<lfloor>log 2 y\<rfloor>"
    by simp
  with to_double_pos_range [OF assms(1)] to_double_pos_range [OF y] show ?thesis
    by linarith
qed

lemma to_double_mono:
  assumes "x \<le> y"
  shows "to_double x \<le> to_double y"
proof -
  consider "0 < x" | "x \<le> 0" "0 \<le> y" | "y < 0" by linarith
  then show ?thesis
  proof cases
    case 1
    then show ?thesis using assms by (rule to_double_mono_pos)
  next
    case 2
    have "to_double x \<le> 0"
      using 2(1) to_double_pos [of "- x"] by (cases "x = 0") (simp_all add: to_double_minus)
    moreover have "0 \<le> to_double y"
      using 2(2) to_double_pos [of y] by (cases "y = 0") simp_all
    ultimately show ?thesis by simp
  next
    case 3
    with assms have "0 < - y" "- y \<le> - x" by simp_all
    from to_double_mono_pos [OF this] show ?thesis
      by (simp add: to_double_minus)
  qed
qed

lemma to_double_eval:
  assumes "0 < x" and "2 powr of_int e \<le> x" and "x < 2 powr (of_int e + 1)"
  shows "to_double x = of_int (round_half_even (x / 2 powr (of_int e - 52))) * 2 powr (of_int e - 52)"
proof -
  from assms have "\<lfloor>log 2 x\<rfloor> = e"
    using floor_log_eq_powr_iff [of x 2 e] by simp
  with assms(1) show ?thesis
    by (simp add: to_double_def ulp_log)
qed

lemma to_double_1: "to_double 1 = 1"
  using to_double_eval [of 1 0] by (simp add: powr_minus field_simps)

lemma to_double_1e17: "to_double 100000000000000000 = 100000000000000000"
  using to_double_eval [of 100000000000000000 56] by (simp add: round_half_even_def)

lemma to_double_1e17_plus_1: "to_double (100000000000000000 + 1) = 100000000000000000"
  using to_double_eval [of "100000000000000000 + 1" 56] by (simp add: round_half_even_def)

lemma to_double_1e18: "to_double 1000000000000000000 = 1000000000000000000"
  using to_double_eval [of 1000000000000000000 59] by (simp add: round_half_even_def)

lemma double_add_ge:
  assumes "is_double a" and "0 \<le> b"
  shows "a \<le> double_add a b"
proof -
  from assms(2) have "a \<le> a + b" by simp
  from to_double_mono [OF this] assms(1) show ?thesis
    by (simp add: double_add_def is_double_def)
qed

lemma double_mul_rate_pos: "0 < dt \<Longrightarrow> 0 < double_mul regenerationRate dt"
  by (simp add: double_mul_def regenerationRate_def to_double_pos)

lemma double_add_zero_pos: "0 < b \<Longrightarrow> 0 < double_add 0 b"
  by (simp add: double_add_def to_double_pos)

section \<open>HealthSystem with the rounding of doubles\<close>

lemma has_all_HealthSystem:
  "has_all HealthSystem_requiredComponents e \<longleftrightarrow> health e \<noteq> None"
  by (simp add: has_all_def HealthSystem_requiredComponents_def components_has_def)

lemma HealthSystem_update_entity_double_ok:
  assumes "health e = Some (HealthComponent current maximum)"
  shows "\<exists>current'.
           HealthSystem_update_entity_double dt e =
             Inr (e\<lparr>health := Some (HealthComponent current' maximum)\<rparr>,
                  if \<not> isAlive (HealthComponent current' maximum) then [HasDied (entity_id e)] else []) \<and>
           current' =
             (if current < maximum
              then min maximum (double_add current (double_mul regenerationRate dt))
              else current)"
  by (simp add: HealthSystem_update_entity_double_def assms Let_def)

lemma HealthSystem_update_entity_double_required:
  assumes "has_all HealthSystem_requiredComponents e"
  shows "\<exists>e'. HealthSystem_update_entity_double dt e =
           Inr (e', if (case health e' of Some h \<Rightarrow> \<not> isAlive h | None \<Rightarrow> False)
                    then [HasDied (entity_id e')] else [])"
proof -
  from assms obtain h where "health e = Some h"
    by (auto simp: has_all_HealthSystem)
  then obtain c m where "health e = Some (HealthComponent c m)"
    by (cases h) simp
  from HealthSystem_update_entity_double_ok [OF this, of dt] show ?thesis
    by auto
qed

lemma concat_map_if:
  assumes "\<And>e. e \<in> set es \<Longrightarrow> g e = (if P (h e) then [k (h e)] else [])"
  shows "concat (map g es) = map k (filter P (map h es))"
  using assms by (induction es) auto

text \<open>
  The update with rounding agrees with the update in exact arithmetic whenever the
  elapsed time is a double and the sum needs no rounding, and it keeps the bound of
  C4 as well.
\<close>

lemma HealthSystem_update_entity_double_exact:
  assumes "is_double dt"
    and "\<And>current maximum. health e = Some (HealthComponent current maximum) \<Longrightarrow>
           is_double (current + dt)"
  shows "HealthSystem_update_entity_double dt e = HealthSystem_update_entity dt e"
proof (cases "health e")
  case None
  then show ?thesis
    by (simp add: HealthSystem_update_entity_double_def HealthSystem_update_entity_def)
next
  case (Some h)
  then obtain c m where h: "health e = Some (HealthComponent c m)"
    by (cases h) simp
  from assms(1) have "double_mul regenerationRate dt = dt"
    by (simp add: double_mul_def regenerationRate_def is_double_def)
  moreover from assms(2) [OF h] have "double_add c dt = c + dt"
    by (simp add: double_add_def is_double_def)
  ultimately show ?thesis
    by (simp add: HealthSystem_update_entity_double_def HealthSystem_update_entity_def h
        regenerationRate_def)
qed

lemma HealthSystem_update_entity_double_within:
  assumes "within_maximum e"
  shows "\<exists>e' out. HealthSystem_update_entity_double dt e = Inr (e', out) \<and> within_maximum e'"
proof -
  from assms obtain c m where h: "health e = Some (HealthComponent c m)" and le: "c \<le> m"
    by (auto simp: within_maximum_def split: option.splits HealthComponent.splits)
  show ?thesis
    using le by (simp add: HealthSystem_update_entity_double_def h within_maximum_def Let_def)
qed

text \<open>
  C9, as amended. Regeneration applies to dead entities as to live ones. When the
  health system is given entities that all have a health component, one update with
  \<open>deltaTime > 0\<close> completes without an exception, and every entity whose health has
  \<open>current < maximum\<close> (\<open>current\<close> a double) comes out with
  \<open>current = min(maximum, current + 1.0 * deltaTime)\<close> as double arithmetic computes
  it and is otherwise unchanged. The new value is never below the old one, and it is
  strictly above it exactly when the rounded sum differs from the old value. In
  particular an entity with \<open>current = 0\<close> is not alive before the update and alive
  after it. The death check runs after the regeneration: the deaths reported are
  those of the entities that are not alive after the update.
\<close>

theorem regeneration_never_lowers_health:
  assumes "list_all (has_all HealthSystem_requiredComponents) es" and "0 < dt"
  shows "\<exists>es' out.
           HealthSystem_update_double es dt = (es', out, None) \<and> length es' = length es \<and>
           (\<forall>i current maximum.
              i < length es \<and> health (es ! i) = Some (HealthComponent current maximum) \<and>
              is_double current \<and> current < maximum \<longrightarrow>
              (\<exists>current'.
                 es' ! i = (es ! i)\<lparr>health := Some (HealthComponent current' maximum)\<rparr> \<and>
                 current' = min maximum (double_add current (double_mul regenerationRate dt)) \<and>
                 current \<le> current' \<and>
                 (current < current' \<longleftrightarrow>
                    double_add current (double_mul regenerationRate dt) \<noteq> current) \<and>
                 (current = 0 \<longrightarrow>
                    \<not> isAlive (HealthComponent current maximum) \<and>
                    isAlive (HealthComponent current' maximum)))) \<and>
           out = map (\<lambda>e. HasDied (entity_id e))
                   (filter (\<lambda>e. case health e of Some h \<Rightarrow> \<not> isAlive h | None \<Rightarrow> False) es')"
proof -
  let ?f = "HealthSystem_update_entity_double dt"
  let ?h = "\<lambda>e. fst (projr (?f e))"
  let ?P = "\<lambda>e. case health e of Some h \<Rightarrow> \<not> isAlive h | None \<Rightarrow> False"
  have req: "\<exists>e'. ?f e = Inr (e', if ?P e' then [HasDied (entity_id e')] else [])"
    if "e \<in> set es" for e
    using that assms(1) HealthSystem_update_entity_double_required by (auto simp: list_all_iff)
  then have "\<exists>r. ?f e = Inr r" if "e \<in> set es" for e
    using that by blast
  from forEach_no_throw [of es ?f, OF this]
  have run: "HealthSystem_update_double es dt =
      (map ?h es, concat (map (\<lambda>e. snd (projr (?f e))) es), None)"
    by (simp add: HealthSystem_update_double_def)
  have "snd (projr (?f e)) = (if ?P (?h e) then [HasDied (entity_id (?h e))] else [])"
    if "e \<in> set es" for e
    using req [OF that] by auto
  then have logs: "concat (map (\<lambda>e. snd (projr (?f e))) es) =
      map (\<lambda>e. HasDied (entity_id e)) (filter ?P (map ?h es))"
    by (rule concat_map_if)
  have each: "\<exists>current'.
      map ?h es ! i = (es ! i)\<lparr>health := Some (HealthComponent current' maximum)\<rparr> \<and>
      current' = min maximum (double_add current (double_mul regenerationRate dt)) \<and>
      current \<le> current' \<and>
      (current < current' \<longleftrightarrow> double_add current (double_mul regenerationRate dt) \<noteq> current) \<and>
      (current = 0 \<longrightarrow>
         \<not> isAlive (HealthComponent current maximum) \<and> isAlive (HealthComponent current' maximum))"
    if i: "i < length es" and h: "health (es ! i) = Some (HealthComponent current maximum)"
      and d: "is_double current" and lt: "current < maximum" for i current maximum
  proof -
    let ?s = "double_add current (double_mul regenerationRate dt)"
    from double_mul_rate_pos [OF assms(2)] have pos: "0 < double_mul regenerationRate dt" .
    from double_add_ge [OF d, of "double_mul regenerationRate dt"] pos have ge: "current \<le> ?s"
      by simp
    from HealthSystem_update_entity_double_ok [OF h, of dt] lt
    have "?f (es ! i) = Inr ((es ! i)\<lparr>health := Some (HealthComponent (min maximum ?s) maximum)\<rparr>,
        if \<not> isAlive (HealthComponent (min maximum ?s) maximum)
        then [HasDied (entity_id (es ! i))] else [])"
      by auto
    with i have 1: "map ?h es ! i =
        (es ! i)\<lparr>health := Some (HealthComponent (min maximum ?s) maximum)\<rparr>"
      by simp
    from ge lt have 2: "current \<le> min maximum ?s" by simp
    from ge lt have 3: "current < min maximum ?s \<longleftrightarrow> ?s \<noteq> current" by auto
    have 4: "\<not> isAlive (HealthComponent current maximum) \<and>
        isAlive (HealthComponent (min maximum ?s) maximum)" if "current = 0"
      using that lt double_add_zero_pos [OF pos] by simp
    from 1 2 3 4 show ?thesis by blast
  qed
  from run logs each show ?thesis
    by (intro exI [of _ "map ?h es"] exI [of _ "concat (map (\<lambda>e. snd (projr (?f e))) es)"])
      (simp, blast)
qed

theorem regeneration_never_lowers_health_witness:
  "list_all (has_all HealthSystem_requiredComponents) [healthEntity 99, healthEntity 0] \<and>
   (0 :: real) < 1 / 60 \<and> is_double 0 \<and>
   (\<exists>es' current'.
      HealthSystem_update_double [healthEntity 99, healthEntity 0] (1 / 60) = (es', [], None) \<and>
      length es' = 2 \<and> es' ! 1 = healthEntity current' \<and> 0 < current' \<and>
      \<not> isAlive (HealthComponent 0 100) \<and> isAlive (HealthComponent current' 100))"
proof -
  let ?es = "[healthEntity 99, healthEntity 0]"
  have a: "list_all (has_all HealthSystem_requiredComponents) ?es"
    by (simp add: has_all_HealthSystem healthEntity_def)
  have b: "(0 :: real) < 1 / 60" by simp
  have z: "is_double 0" by (simp add: is_double_def)
  let ?P = "\<lambda>e. case health e of Some h \<Rightarrow> \<not> isAlive h | None \<Rightarrow> False"
  from regeneration_never_lowers_health [OF a b]
  obtain es' out where run: "HealthSystem_update_double ?es (1 / 60) = (es', out, None)"
    and len: "length es' = length ?es"
    and each: "\<And>i current maximum.
        i < length ?es \<Longrightarrow> health (?es ! i) = Some (HealthComponent current maximum) \<Longrightarrow>
        is_double current \<Longrightarrow> current < maximum \<Longrightarrow>
        \<exists>current'.
          es' ! i = (?es ! i)\<lparr>health := Some (HealthComponent current' maximum)\<rparr> \<and>
          current' = min maximum (double_add current (double_mul regenerationRate (1 / 60))) \<and>
          current \<le> current' \<and>
          (current < current' \<longleftrightarrow>
             double_add current (double_mul regenerationRate (1 / 60)) \<noteq> current) \<and>
          (current = 0 \<longrightarrow>
             \<not> isAlive (HealthComponent current maximum) \<and>
             isAlive (HealthComponent current' maximum))"
    and out: "out = map (\<lambda>e. HasDied (entity_id e)) (filter ?P es')"
    by blast
  from each [of 1 0 100] z obtain c1 where
    c1: "es' ! 1 = (healthEntity 0)\<lparr>health := Some (HealthComponent c1 100)\<rparr>"
      "\<not> isAlive (HealthComponent 0 100)" "isAlive (HealthComponent c1 100)"
    by (auto simp: healthEntity_def)
  have d99: "is_double 99"
    using to_double_eval [of 99 6] by (simp add: is_double_def round_half_even_def powr_minus field_simps)
  from each [of 0 99 100] d99 obtain c0 where
    c0: "es' ! 0 = (healthEntity 99)\<lparr>health := Some (HealthComponent c0 100)\<rparr>" "99 \<le> c0"
    by (auto simp: healthEntity_def)
  from len obtain x y where xy: "es' = [x, y]"
    by (cases es'; cases "tl es'") auto
  with c0 c1 have "\<not> ?P x" "\<not> ?P y" by simp_all
  with out xy have "out = []" by simp
  with run have r: "HealthSystem_update_double ?es (1 / 60) = (es', [], None)" by simp
  from len have l: "length es' = 2" by simp
  from c1 have e: "es' ! 1 = healthEntity c1" and p: "0 < c1"
    by (simp_all add: healthEntity_def)
  from r l e p c1(2,3) have "\<exists>es' current'.
      HealthSystem_update_double ?es (1 / 60) = (es', [], None) \<and>
      length es' = 2 \<and> es' ! 1 = healthEntity current' \<and> 0 < current' \<and>
      \<not> isAlive (HealthComponent 0 100) \<and> isAlive (HealthComponent current' 100)"
    by blast
  with a b z show ?thesis by blast
qed

text \<open>
  The claim as it was worded, with a strict increase for every entity below its
  maximum, fails where the elapsed time is lost to rounding: for
  \<open>new HealthComponent(1e17, 1e18)\<close> and \<open>deltaTime = 1\<close>, all three doubles, the sum
  \<open>1e17 + 1\<close> rounds back to \<open>1e17\<close> (neighbouring doubles are 16 apart there), and the
  update leaves the entity as it was.
\<close>

theorem regeneration_lost_to_rounding_counterexample:
  "health hugeHealthEntity = Some (HealthComponent 100000000000000000 1000000000000000000) \<and>
   is_double 100000000000000000 \<and> is_double 1000000000000000000 \<and> is_double 1 \<and>
   (100000000000000000 :: real) < 1000000000000000000 \<and> (0 :: real) < 1 \<and>
   HealthSystem_update_double [hugeHealthEntity] 1 = ([hugeHealthEntity], [], None)"
proof -
  have "double_add 100000000000000000 (double_mul regenerationRate 1) = 100000000000000000"
    using to_double_1e17_plus_1 by (simp add: double_add_def double_mul_def regenerationRate_def to_double_1)
  then show ?thesis
    by (simp add: HealthSystem_update_double_def HealthSystem_update_entity_double_def
        hugeHealthEntity_def is_double_def to_double_1 to_double_1e17 to_double_1e18)
qed

section \<open>CollisionSystem\<close>

text \<open>
  C5. For two entities that each have a position and a sprite, \<open>checkCollision\<close>
  returns the same answer in both orders, and the answer is that the two rectangles
  (position as top-left corner, sprite width and height as extents) overlap strictly on
  both axes.
\<close>

theorem checkCollision_symmetric:
  assumes "position a = Some (PositionComponent ax ay az)"
    and "sprite a = Some (SpriteComponent ta aw ah ra)"
    and "position b = Some (PositionComponent bx by bz)"
    and "sprite b = Some (SpriteComponent tb bw bh rb)"
  shows "checkCollision a b = checkCollision b a \<and>
         checkCollision a b = Inr (ax < bx + bw \<and> ax + aw > bx \<and> ay < by + bh \<and> ay + ah > by)"
  using assms by (auto simp: checkCollision_def)

theorem checkCollision_symmetric_witness:
  "checkCollision (spriteAt ''entity_1'' 0 0) (spriteAt ''entity_2'' 20 20) = Inr True \<and>
   checkCollision (spriteAt ''entity_2'' 20 20) (spriteAt ''entity_1'' 0 0) = Inr True \<and>
   checkCollision (spriteAt ''entity_1'' 0 0) (spriteAt ''entity_2'' 32 32) = Inr False \<and>
   checkCollision (spriteAt ''entity_2'' 32 32) (spriteAt ''entity_1'' 0 0) = Inr False"
proof -
  have p: "position (spriteAt i x y) = Some (PositionComponent x y 0)"
    and s: "sprite (spriteAt i x y) = Some (SpriteComponent ''infantry_texture'' 32 32 0)" for i x y
    by (simp_all add: spriteAt_def)
  from checkCollision_symmetric [OF p s p s, of "''entity_1''" 0 0 "''entity_2''" 20 20]
    checkCollision_symmetric [OF p s p s, of "''entity_1''" 0 0 "''entity_2''" 32 32]
  show ?thesis by auto
qed

section \<open>Renderer camera\<close>

lemma setZoom_clamps:
  "0.1 \<le> zoom (camera (setZoom r z)) \<and> zoom (camera (setZoom r z)) \<le> 3.0"
  by (simp add: setZoom_def)

lemma moveCamera_zoom: "zoom (camera (moveCamera r deltaX deltaY)) = zoom (camera r)"
  by (simp add: moveCamera_def)

lemma setCamera_without_zoom: "zoom (camera (setCamera r x y None)) = zoom (camera r)"
  by (simp add: setCamera_def)

text \<open>
  C8. \<open>setZoom\<close> clamps and \<open>moveCamera\<close> does not touch the zoom (the three lemmas
  above), but \<open>setCamera\<close> stores the zoom it is given as it is: on a new renderer,
  \<open>setCamera(0, 0, 10)\<close> leaves the zoom at 10, above 3.0, and \<open>setCamera(0, 0, 0)\<close>
  leaves it at 0, below 0.1.
\<close>

theorem setCamera_zoom_unclamped:
  "zoom (camera (setCamera new_Renderer 0 0 (Some 10))) = 10 \<and> \<not> (10 :: real) \<le> 3.0 \<and>
   zoom (camera (setCamera new_Renderer 0 0 (Some 0))) = 0 \<and> \<not> (0.1 :: real) \<le> 0"
  by (simp add: setCamera_def new_Renderer_def)

section \<open>Game server\<close>

lemma snapshots_append: "snapshots (xs @ ys) = snapshots xs @ snapshots ys"
  by (induction xs rule: snapshots.induct) simp_all

lemma snapshots_dispatch:
  "dispatch player command type = Inr handled \<Longrightarrow> snapshots handled = []"
  by (auto simp: dispatch_def handleMoveCommand_def handleAttackCommand_def
      handleBuildCommand_def handleSelectCommand_def split: if_splits sum.splits)

lemma updateGame_tick:
  "tick (gameState (fst (updateGame s))) =
     tick (gameState s) + (if (tick (gameState s) + 1) mod 30 = 0 then 2 else 1)"
  by (simp add: updateGame_def broadcastGameState_def Let_def)

lemma updateGame_snapshots:
  "snapshots (snd (updateGame s)) =
     (if (tick (gameState s) + 1) mod 30 = 0 then [gameState (fst (updateGame s))] else [])"
  by (simp add: updateGame_def broadcastGameState_def Let_def)

lemma tick_after_29_iterations:
  "tick (gameState (fst (startGameLoop 29 new_GameServer))) = 29"
  by code_simp

lemma handleGameCommand_move_ok:
  "snd (snd (handleGameCommand server_with_player ''sock1'' moveCommand)) = None"
  by (simp add: handleGameCommand_def server_with_player_def moveCommand_def dispatch_def
      handleMoveCommand_def data_prop_def broadcastGameState_def Let_def)

lemma handleGameCommand_unprintable_type_throws:
  "handleGameCommand server_with_player ''sock1''
       (JsObject [(''type'', JsObject [(''toString'', JsNumber 1)])]) =
     (server_with_player,
      [ConsoleLog (CommandFrom ''Player_sock1''
         (JsObject [(''type'', JsObject [(''toString'', JsNumber 1)])]))],
      Some TypeError)"
  by (simp add: handleGameCommand_def server_with_player_def joinedPlayer_def dispatch_def)

lemma handleGameCommand_null_throws:
  "handleGameCommand server_with_player ''sock1'' JsNull =
     (server_with_player, [ConsoleLog (CommandFrom ''Player_sock1'' JsNull)], Some TypeError)"
  by (simp add: handleGameCommand_def server_with_player_def joinedPlayer_def)

text \<open>
  C1, as amended. An iteration of the simulation loop emits a full-state snapshot to
  all connected clients exactly when the tick counter it has just incremented is a
  multiple of 30, and never more than one. Outside the loop, a command from a
  connected player that is processed without an exception is followed by one
  full-state snapshot of its own; a command from a socket without a player record, and
  a command whose processing throws, send none.
\<close>

theorem snapshot_points:
  "(snapshots (snd (updateGame s)) \<noteq> [] \<longleftrightarrow> (tick (gameState s) + 1) mod 30 = 0) \<and>
   length (snapshots (snd (updateGame s))) \<le> 1 \<and>
   length (snapshots (fst (snd (handleGameCommand s socket_id command)))) =
     (if map_of (players s) socket_id \<noteq> None \<and>
         snd (snd (handleGameCommand s socket_id command)) = None
      then 1 else 0)"
proof -
  have "length (snapshots (fst (snd (handleGameCommand s socket_id command)))) =
     (if map_of (players s) socket_id \<noteq> None \<and>
         snd (snd (handleGameCommand s socket_id command)) = None
      then 1 else 0)"
    by (auto simp: handleGameCommand_def broadcastGameState_def Let_def snapshots_append
        snapshots_dispatch split: option.splits sum.splits)
  then show ?thesis by (simp add: updateGame_snapshots)
qed

theorem snapshot_points_witness:
  "snapshots (snd (updateGame (fst (startGameLoop 29 new_GameServer)))) \<noteq> [] \<and>
   snapshots (snd (updateGame new_GameServer)) = [] \<and>
   length (snapshots (fst (snd (handleGameCommand server_with_player ''sock1'' moveCommand)))) = 1 \<and>
   length (snapshots (fst (snd (handleGameCommand server_with_player ''nobody'' moveCommand)))) = 0 \<and>
   length (snapshots (fst (snd (handleGameCommand server_with_player ''sock1'' JsNull)))) = 0"
proof -
  have a: "snapshots (snd (updateGame (fst (startGameLoop 29 new_GameServer)))) \<noteq> []"
    using snapshot_points [of "fst (startGameLoop 29 new_GameServer)"]
    by (simp add: tick_after_29_iterations)
  have b: "snapshots (snd (updateGame new_GameServer)) = []"
    using snapshot_points [of new_GameServer] by (simp add: new_GameServer_def)
  have c: "length (snapshots (fst (snd (handleGameCommand server_with_player ''sock1'' moveCommand)))) = 1"
    using snapshot_points [of server_with_player "''sock1''" moveCommand] handleGameCommand_move_ok
    by (simp add: server_with_player_def)
  have d: "length (snapshots (fst (snd (handleGameCommand server_with_player ''nobody'' moveCommand)))) = 0"
    using snapshot_points [of server_with_player "''nobody''" moveCommand]
    by (simp add: server_with_player_def)
  have e: "length (snapshots (fst (snd (handleGameCommand server_with_player ''sock1'' JsNull)))) = 0"
    using snapshot_points [of server_with_player "''sock1''" JsNull]
    by (simp add: handleGameCommand_null_throws)
  from a b c d e show ?thesis by blast
qed

text \<open>
  The claim as the specification words it fails twice. A move command from the joined
  player, on a server whose tick is 0, is answered with a full-state snapshot (of tick
  1). And the loop does not keep to one snapshot per 30 iterations: run from a new
  server, its first 29 iterations send none and its first 59 send two, so iterations
  30 to 59, thirty in a row, hold two broadcasts.
\<close>

theorem snapshot_outside_cadence_counterexample:
  "snapshots (fst (snd (handleGameCommand server_with_player ''sock1'' moveCommand))) =
     [(gameState server_with_player)\<lparr>tick := 1\<rparr>] \<and>
   length (snapshots (snd (startGameLoop 29 new_GameServer))) = 0 \<and>
   length (snapshots (snd (startGameLoop 59 new_GameServer))) = 2"
proof -
  have a: "snapshots (fst (snd (handleGameCommand server_with_player ''sock1'' moveCommand))) =
     [(gameState server_with_player)\<lparr>tick := 1\<rparr>]"
    by (simp add: handleGameCommand_def server_with_player_def moveCommand_def dispatch_def
        handleMoveCommand_def data_prop_def broadcastGameState_def Let_def)
  have b: "length (snapshots (snd (startGameLoop 29 new_GameServer))) = 0"
    by code_simp
  have c: "length (snapshots (snd (startGameLoop 59 new_GameServer))) = 2"
    by code_simp
  from a b c show ?thesis by blast
qed

text \<open>
  C2. The 30th iteration of the loop on a new server: the tick counter is 29 before
  it and 31 after it, not 30. \<open>updateGame\<close> increments the counter to 30, the test
  \<open>tick % 30 === 0\<close> succeeds, and \<open>broadcastGameState\<close> increments it once more.
\<close>

theorem tick_advances_by_two_on_broadcast:
  "tick (gameState (fst (startGameLoop 29 new_GameServer))) = 29 \<and>
   tick (gameState (fst (updateGame (fst (startGameLoop 29 new_GameServer))))) = 31"
  by (simp add: updateGame_tick tick_after_29_iterations)

lemma unknown_command_discarded:
  assumes "map_of (players s) socket_id = Some player"
    and "get_prop command ''type'' = Inr type"
    and "type \<notin> {JsString ''move'', JsString ''attack'', JsString ''build'', JsString ''select''}"
    and "printable type"
  shows "\<exists>s' sent.
           handleGameCommand s socket_id command =
             (s', [ConsoleLog (CommandFrom (name player) command),
                   ConsoleLog (UnknownCommandType type)] @ sent, None) \<and>
           console sent = [] \<and> players s' = players s \<and>
           (gameState s')\<lparr>tick := tick (gameState s)\<rparr> = gameState s"
  using assms
  by (simp add: handleGameCommand_def dispatch_def broadcastGameState_def Let_def)

text \<open>
  C6. The \<open>togglePause\<close> command of the client, whose kind the server does not
  know, sent by the joined player to a server whose tick is 0. Nothing is thrown, the
  console receives the line that announces the command and the line that reports its
  unknown kind, and no handler runs; but the broadcast that closes the processing of
  every command increments the tick counter, so the game state is not what it was:
  its tick is 1.
\<close>

theorem unknown_command_advances_tick:
  "handleGameCommand server_with_player ''sock1'' togglePauseCommand =
     (server_with_player\<lparr>gameState := (gameState server_with_player)\<lparr>tick := 1\<rparr>\<rparr>,
      [ConsoleLog (CommandFrom ''Player_sock1'' togglePauseCommand),
       ConsoleLog (UnknownCommandType (JsString ''togglePause'')),
       IoEmit_gameState ((gameState server_with_player)\<lparr>tick := 1\<rparr>)],
      None) \<and>
   tick (gameState server_with_player) = 0 \<and>
   gameState (fst (handleGameCommand server_with_player ''sock1'' togglePauseCommand)) \<noteq>
     gameState server_with_player"
  by (simp add: handleGameCommand_def server_with_player_def togglePauseCommand_def dispatch_def
      broadcastGameState_def joinedPlayer_def Let_def)

end
